theory Spec2Isabelle
  imports Complex_Main
begin

section \<open>Data model of autogain.py\<close>

text \<open>
  Python floats are modelled as \<^typ>\<open>real\<close> and Python integers as \<^typ>\<open>int\<close>:
  every statement below is about exact arithmetic, without rounding, overflow or
  underflow of the binary floating-point operations.

  The block of module-level settings under "Default Configuration" (lines 24 to 43; the
  textual settings, which no modelled operation reads, are left out) is a record that
  every operation receives, since the script's own calibration mode rewrites these
  settings. \<open>default_config\<close> holds the values the source file ships with.
\<close>

record config =
  MIN_GAIN_DB :: int
  MAX_GAIN_DB :: int
  GAIN_STEP_DB :: int
  NOISE_THRESHOLD_HIGH :: real
  NOISE_THRESHOLD_LOW :: real
  NO_SIGNAL_THRESHOLD :: real
  NO_SIGNAL_COUNT_THRESHOLD :: int
  SAMPLING_RATE :: real
  LOWCUT :: real
  HIGHCUT :: real
  FILTER_ORDER :: int

definition default_config :: config where
  "default_config = \<lparr>
     MIN_GAIN_DB = 30,
     MAX_GAIN_DB = 38,
     GAIN_STEP_DB = 3,
     NOISE_THRESHOLD_HIGH = 0.01,
     NOISE_THRESHOLD_LOW = 0.001,
     NO_SIGNAL_THRESHOLD = 1 / 10 ^ 6,
     NO_SIGNAL_COUNT_THRESHOLD = 3,
     SAMPLING_RATE = 48000,
     LOWCUT = 2000,
     HIGHCUT = 8000,
     FILTER_ORDER = 4 \<rparr>"

text \<open>Lines 45 to 51: the reference pressure and the default microphone specifications.\<close>

definition REFERENCE_PRESSURE :: real where
  "REFERENCE_PRESSURE = 20 / 10 ^ 6"

definition DEFAULT_SNR :: real where
  "DEFAULT_SNR = 80"

definition DEFAULT_SELF_NOISE :: real where
  "DEFAULT_SELF_NOISE = 14"

definition DEFAULT_CLIPPING :: real where
  "DEFAULT_CLIPPING = 120"

definition DEFAULT_SENSITIVITY :: real where
  "DEFAULT_SENSITIVITY = - 28"

text \<open>Lines 54 to 58; \<open>10 ** x\<close> on floats is the real power \<open>10 powr x\<close>.\<close>

definition def_full_scale :: real where
  "def_full_scale =
     REFERENCE_PRESSURE * 10 powr (DEFAULT_CLIPPING / 20) * 10 powr (DEFAULT_SENSITIVITY / 20)"

text \<open>
  What the process does to the outside world, in the order it does it: an
  \<open>amixer sset\<close> call with the whole number of decibels it is given, the no-signal
  shell action, and the sleep that ends a cycle. Log lines are not modelled.
\<close>

datatype event = AmixerSset int | NoSignalAction | Sleep

text \<open>The only exception a modelled path can raise: the filter design rejecting its cutoffs.\<close>

datatype error = ValueError

section \<open>Audio and gain helpers\<close>

text \<open>Python's \<open>int(x)\<close> on a float truncates toward zero.\<close>

definition py_int :: "real \<Rightarrow> int" where
  "py_int x = (if 0 \<le> x then \<lfloor>x\<rfloor> else \<lceil>x\<rceil>)"

text \<open>Python 3's \<open>round(x)\<close> with one argument: the nearest integer, ties to the even one.\<close>

definition py_round :: "real \<Rightarrow> int" where
  "py_round x =
     (let f = \<lfloor>x\<rfloor>; d = x - of_int f
      in if d < 1 / 2 then f else if 1 / 2 < d then f + 1 else if even f then f else f + 1)"

text \<open>
  \<open>set_gain_db\<close> (lines 88 to 99) clamps its argument and calls
  \<open>amixer sset\<close> with \<open>int(gain_db)\<close>. Its Boolean result (whether amixer succeeded)
  is discarded at each of its three call sites, so the model keeps the call only.
\<close>

definition set_gain_db :: "config \<Rightarrow> real \<Rightarrow> event" where
  "set_gain_db cfg gain_db =
     (let gain_db = max (min gain_db (of_int (MAX_GAIN_DB cfg))) (of_int (MIN_GAIN_DB cfg))
      in AmixerSset (py_int gain_db))"

text \<open>
  \<open>bandpass_filter\<close> (lines 118 to 120) designs the filter anew at every call with
  \<open>scipy.signal.butter\<close> and applies it with \<open>sosfilt\<close>. Both are library
  functions outside the repository and are parameters of the model: \<open>butter\<close> either
  raises or returns the second-order sections, \<open>sosfilt\<close> applies them.
\<close>

type_synonym sos = "real list list"

record scipy_signal =
  butter :: "int \<Rightarrow> real \<times> real \<Rightarrow> real \<Rightarrow> error + sos"
  sosfilt :: "sos \<Rightarrow> real list \<Rightarrow> real list"

definition bandpass_filter ::
  "scipy_signal \<Rightarrow> real list \<Rightarrow> real \<Rightarrow> real \<Rightarrow> real \<Rightarrow> int \<Rightarrow> error + real list" where
  "bandpass_filter lib audio lowcut highcut fs order' =
     (case butter lib order' (lowcut, highcut) fs of
        Inl e \<Rightarrow> Inl e
      | Inr s \<Rightarrow> Inr (sosfilt lib s audio))"

text \<open>
  Modelled from the spec: \<open>scipy.signal.butter\<close> is not part of the repository. Section
  4.1 of the specification names the inputs it rejects: a low cutoff at or above the high
  cutoff, or either cutoff at or above half the sample rate. This instance rejects exactly
  those and otherwise returns a filter that leaves the samples as they are; it is used only
  to run the model on concrete inputs.
\<close>

definition invalid_cutoffs :: "real \<Rightarrow> real \<Rightarrow> real \<Rightarrow> bool" where
  "invalid_cutoffs lowcut highcut fs \<longleftrightarrow> highcut \<le> lowcut \<or> fs / 2 \<le> lowcut \<or> fs / 2 \<le> highcut"

definition checking_lib :: scipy_signal where
  "checking_lib = \<lparr>
     butter = (\<lambda>order' (lowcut, highcut) fs.
        if invalid_cutoffs lowcut highcut fs then Inl ValueError else Inr []),
     sosfilt = (\<lambda>s audio. audio) \<rparr>"

text \<open>\<open>measure_rms\<close> (lines 122 to 123); \<open>np.mean\<close> is the sum over the length.\<close>

definition np_mean :: "real list \<Rightarrow> real" where
  "np_mean xs = sum_list xs / real (length xs)"

definition measure_rms :: "real list \<Rightarrow> real" where
  "measure_rms audio =
     (if length audio > 0 then sqrt (np_mean (map (\<lambda>x. x ^ 2) audio)) else 0)"

text \<open>
  The level meter as the specification words it, \<open>sqrt(mean(x_i^2))\<close> over the samples
  \<open>x_0 \<dots> x_(n-1)\<close>, for comparison with \<open>measure_rms\<close>.
\<close>

definition rms_spec :: "real list \<Rightarrow> real" where
  "rms_spec x = sqrt ((\<Sum>i<length x. (x ! i) ^ 2) / real (length x))"

section \<open>Calibration\<close>

text \<open>
  The dictionaries of the calibration mode have fixed keys and are records:
  \<open>mic_params\<close> is what \<open>interactive_calibration\<close> returns, \<open>proposal\<close> what
  \<open>calibrate_and_propose\<close> returns.
\<close>

record mic_params =
  snr :: real
  self_noise :: real
  clipping :: real
  sensitivity :: real

record proposal =
  noise_threshold_high :: real
  noise_threshold_low :: real
  min_gain_db :: real
  max_gain_db :: real

definition default_mic_params :: mic_params where
  "default_mic_params = \<lparr>
     snr = DEFAULT_SNR,
     self_noise = DEFAULT_SELF_NOISE,
     clipping = DEFAULT_CLIPPING,
     sensitivity = DEFAULT_SENSITIVITY \<rparr>"

text \<open>
  \<open>calibrate_and_propose\<close> (lines 146 to 188), without its printing. Neither division
  can fail: \<open>def_full_scale\<close> is a product of positive numbers and
  \<open>DEFAULT_SNR\<close> is 80.
\<close>

definition calibrate_and_propose :: "config \<Rightarrow> mic_params \<Rightarrow> proposal" where
  "calibrate_and_propose cfg p =
     (let user_snr = snr p;
          clipping' = clipping p;
          sensitivity' = sensitivity p;
          user_full_scale =
            REFERENCE_PRESSURE * 10 powr (clipping' / 20) * 10 powr (sensitivity' / 20);
          fraction_high_default = NOISE_THRESHOLD_HIGH cfg / def_full_scale;
          fraction_low_default = NOISE_THRESHOLD_LOW cfg / def_full_scale;
          snr_ratio = user_snr / DEFAULT_SNR;
          proposed_high = fraction_high_default * user_full_scale * snr_ratio;
          proposed_low = fraction_low_default * user_full_scale * snr_ratio;
          gain_offset = DEFAULT_SENSITIVITY - sensitivity';
          proposed_min_gain = of_int (MIN_GAIN_DB cfg) + gain_offset;
          proposed_max_gain = of_int (MAX_GAIN_DB cfg) + gain_offset
      in \<lparr> noise_threshold_high = proposed_high,
           noise_threshold_low = proposed_low,
           min_gain_db = proposed_min_gain,
           max_gain_db = proposed_max_gain \<rparr>)"

text \<open>
  The substitution table \<open>subs\<close> that \<open>persist_calibration_to_script\<close> builds
  (lines 191 to 196). The thresholds are formatted with \<open>.7f\<close>, that is as the nearest
  decimal with seven fractional digits, and the model keeps the number this text denotes;
  the gain bounds are \<open>int(round(x))\<close>. The \<open>sed\<close> calls that apply the table to the
  script file are not modelled.
\<close>

definition format_7f :: "real \<Rightarrow> real" where
  "format_7f x = of_int (py_round (x * 10 ^ 7)) / 10 ^ 7"

record substitutions =
  subs_NOISE_THRESHOLD_HIGH :: real
  subs_NOISE_THRESHOLD_LOW :: real
  subs_MIN_GAIN_DB :: int
  subs_MAX_GAIN_DB :: int

definition persist_subs :: "proposal \<Rightarrow> substitutions" where
  "persist_subs proposal' = \<lparr>
     subs_NOISE_THRESHOLD_HIGH = format_7f (noise_threshold_high proposal'),
     subs_NOISE_THRESHOLD_LOW = format_7f (noise_threshold_low proposal'),
     subs_MIN_GAIN_DB = py_round (min_gain_db proposal'),
     subs_MAX_GAIN_DB = py_round (max_gain_db proposal') \<rparr>"

section \<open>The dynamic gain control loop\<close>

text \<open>
  What the outside world answers during one cycle: the result of \<open>capture_audio\<close>
  (\<open>None\<close> when ffmpeg fails) and the result \<open>get_gain_db\<close> would give
  (\<open>None\<close> when amixer fails or prints no gain).
\<close>

record cycle_input =
  captured :: "real list option"
  gain_reading :: "real option"

text \<open>
  No-signal detection, lines 276 to 283: the new counter and whether the no-signal
  action is executed.
\<close>

definition no_signal_detection :: "config \<Rightarrow> int \<Rightarrow> real \<Rightarrow> int \<times> bool" where
  "no_signal_detection cfg no_signal_count rms =
     (if rms < NO_SIGNAL_THRESHOLD cfg then
        (let no_signal_count = no_signal_count + 1
         in (no_signal_count, no_signal_count \<ge> NO_SIGNAL_COUNT_THRESHOLD cfg))
      else (0, False))"

text \<open>
  The gain decision, lines 291 to 294: the value handed to \<open>set_gain_db\<close>, or
  \<open>None\<close> when neither branch is taken.
\<close>

definition gain_decision :: "config \<Rightarrow> real \<Rightarrow> real \<Rightarrow> real option" where
  "gain_decision cfg rms current_gain =
     (if rms > NOISE_THRESHOLD_HIGH cfg then Some (current_gain - of_int (GAIN_STEP_DB cfg))
      else if rms < NOISE_THRESHOLD_LOW cfg then Some (current_gain + of_int (GAIN_STEP_DB cfg))
      else None)"

text \<open>
  The rest of a cycle once the level is measured, lines 275 to 296: the events of the
  cycle and the counter it leaves.
\<close>

definition after_measurement :: "config \<Rightarrow> int \<Rightarrow> real \<Rightarrow> real option \<Rightarrow> event list \<times> int" where
  "after_measurement cfg no_signal_count rms reading =
     (let (no_signal_count, fire) = no_signal_detection cfg no_signal_count rms;
          action = (if fire then [NoSignalAction] else [])
      in case reading of
           None \<Rightarrow> (action @ [Sleep], no_signal_count)
         | Some current_gain \<Rightarrow>
             (case gain_decision cfg rms current_gain of
                None \<Rightarrow> (action @ [Sleep], no_signal_count)
              | Some g \<Rightarrow> (action @ [set_gain_db cfg g, Sleep], no_signal_count)))"

text \<open>
  One pass through the body of the \<open>while True\<close> loop, lines 265 to 296: the events
  of the cycle, and either the exception that leaves the loop or the counter for the next
  cycle.
\<close>

definition cycle :: "scipy_signal \<Rightarrow> config \<Rightarrow> int \<Rightarrow> cycle_input \<Rightarrow> event list \<times> (error + int)" where
  "cycle lib cfg no_signal_count inp =
     (case captured inp of
        None \<Rightarrow> ([Sleep], Inr no_signal_count)
      | Some audio \<Rightarrow>
          if length audio = 0 then ([Sleep], Inr no_signal_count)
          else
            (case bandpass_filter lib audio (LOWCUT cfg) (HIGHCUT cfg) (SAMPLING_RATE cfg)
                    (FILTER_ORDER cfg) of
               Inl e \<Rightarrow> ([], Inl e)
             | Inr filtered \<Rightarrow>
                 (let (evs, no_signal_count) =
                        after_measurement cfg no_signal_count (measure_rms filtered)
                          (gain_reading inp)
                  in (evs, Inr no_signal_count))))"

text \<open>
  The loop never returns by itself. The model runs it for as many cycles as there are
  inputs and gives the events of these cycles with the counter reached, or with the
  exception if one cycle raised.
\<close>

fun control_loop ::
  "scipy_signal \<Rightarrow> config \<Rightarrow> int \<Rightarrow> cycle_input list \<Rightarrow> event list \<times> (error + int)" where
  "control_loop lib cfg no_signal_count [] = ([], Inr no_signal_count)"
| "control_loop lib cfg no_signal_count (inp # inps) =
     (case cycle lib cfg no_signal_count inp of
        (evs, Inl e) \<Rightarrow> (evs, Inl e)
      | (evs, Inr no_signal_count) \<Rightarrow>
          (let (evs', r) = control_loop lib cfg no_signal_count inps in (evs @ evs', r)))"

text \<open>\<open>dynamic_gain_control\<close> (lines 258 to 296): the startup write, then the loop.\<close>

definition dynamic_gain_control ::
  "scipy_signal \<Rightarrow> config \<Rightarrow> cycle_input list \<Rightarrow> event list \<times> (error + int)" where
  "dynamic_gain_control lib cfg inps =
     (let startup = set_gain_db cfg (of_int ((MIN_GAIN_DB cfg + MAX_GAIN_DB cfg) div 2));
          no_signal_count = 0;
          (evs, r) = control_loop lib cfg no_signal_count inps
      in (startup # evs, r))"

text \<open>
  Three observations on a run of the loop, used to state what the counter does over
  successive cycles. \<open>measured\<close> is the level a cycle measures from its input: none
  when the capture gave nothing, so that lines 271 to 283 are not reached.
  \<open>fired\<close> reads off a trace, for each cycle in turn (a cycle ends with its sleep),
  whether the no-signal action was executed in it.
\<close>

definition measured :: "scipy_signal \<Rightarrow> config \<Rightarrow> cycle_input \<Rightarrow> real option" where
  "measured lib cfg inp =
     (case captured inp of
        None \<Rightarrow> None
      | Some audio \<Rightarrow>
          if length audio = 0 then None
          else
            (case bandpass_filter lib audio (LOWCUT cfg) (HIGHCUT cfg) (SAMPLING_RATE cfg)
                    (FILTER_ORDER cfg) of
               Inl e \<Rightarrow> None
             | Inr filtered \<Rightarrow> Some (measure_rms filtered)))"

fun fired :: "bool \<Rightarrow> event list \<Rightarrow> bool list" where
  "fired a [] = []"
| "fired a (Sleep # evs) = a # fired False evs"
| "fired a (NoSignalAction # evs) = fired True evs"
| "fired a (AmixerSset v # evs) = fired a evs"

text \<open>
  What one cycle does to the counter, given what it measured: the no-signal detection
  of lines 276 to 283 on a measurement, nothing on a cycle that measured nothing. And
  this update iterated over the cycles of a run, each on the counter the previous cycle
  left: the counter after the last cycle, and for each cycle whether the action was
  executed.
\<close>

definition cycle_update :: "config \<Rightarrow> int \<Rightarrow> real option \<Rightarrow> int \<times> bool" where
  "cycle_update cfg no_signal_count m =
     (case m of
        None \<Rightarrow> (no_signal_count, False)
      | Some rms \<Rightarrow> no_signal_detection cfg no_signal_count rms)"

fun no_signal_run :: "config \<Rightarrow> int \<Rightarrow> real option list \<Rightarrow> int \<times> bool list" where
  "no_signal_run cfg no_signal_count [] = (no_signal_count, [])"
| "no_signal_run cfg no_signal_count (m # rest) =
     (let (no_signal_count, fire) = cycle_update cfg no_signal_count m;
          (c, fires) = no_signal_run cfg no_signal_count rest
      in (c, fire # fires))"

text \<open>The decibel values of the \<open>amixer sset\<close> calls among some events, in order.\<close>

fun writes :: "event list \<Rightarrow> int list" where
  "writes [] = []"
| "writes (AmixerSset v # evs) = v # writes evs"
| "writes (e # evs) = writes evs"

section \<open>Calibration in double precision\<close>



text \<open>
  A Python float: a finite double, an infinity or a nan. (The sign of a zero is not
  kept: no operation below can tell the two zeros apart.) \<open>to_float\<close> is the double
  a real number rounds to, an infinity from \<open>2 ^ 1024\<close> on; it is what a float literal,
  \<open>float(text)\<close> and the result of an arithmetic operation on finite operands are.
\<close>

datatype float = Finite real | PosInf | NegInf | NaN


text \<open>
  The exceptions of float arithmetic in Python: \<open>/\<close> raises on a zero divisor,
  \<open>**\<close> and the conversion of an integer raise when the result is out of range.
  \<open>+\<close>, \<open>-\<close> and \<open>*\<close> never raise: they return an infinity or a nan.
\<close>

datatype arith_error = OverflowError | ZeroDivisionError








text \<open>Sequencing: an exception ends the computation.\<close>

definition and_then :: "arith_error + 'a \<Rightarrow> ('a \<Rightarrow> arith_error + 'b) \<Rightarrow> arith_error + 'b" where
  "and_then r f = (case r of Inl e \<Rightarrow> Inl e | Inr v \<Rightarrow> f v)"




text \<open>
  \<open>def_full_scale\<close> (lines 54 to 58) and \<open>calibrate_and_propose\<close> (lines 146 to
  164 and 183 to 188) in doubles. The float settings of the module are the decimal
  values written there; the program holds the doubles they round to. The module constant
  \<open>def_full_scale\<close> is computed when the module is loaded, before anything else can
  run.
\<close>

record float_proposal =
  proposed_high :: float
  proposed_low :: float
  proposed_min_gain :: float
  proposed_max_gain :: float




section \<open>Basic facts\<close>

lemma writes_append: "writes (xs @ ys) = writes xs @ writes ys"
  by (induction xs rule: writes.induct) simp_all

lemma set_writes: "v \<in> set (writes evs) \<longleftrightarrow> AmixerSset v \<in> set evs"
  by (induction evs rule: writes.induct) auto

lemma py_int_between:
  assumes "of_int a \<le> x" and "x \<le> of_int b"
  shows "a \<le> py_int x \<and> py_int x \<le> b"
proof (cases "0 \<le> x")
  case True
  then have "py_int x = \<lfloor>x\<rfloor>" by (simp add: py_int_def)
  moreover have "a \<le> \<lfloor>x\<rfloor>" using assms(1) by (simp add: le_floor_iff)
  moreover have "\<lfloor>x\<rfloor> \<le> b" using assms(2) by (simp add: floor_le_iff)
  ultimately show ?thesis by simp
next
  case False
  then have "py_int x = \<lceil>x\<rceil>" by (simp add: py_int_def)
  moreover have "a \<le> \<lceil>x\<rceil>" using assms(1) by (simp add: le_ceiling_iff)
  moreover have "\<lceil>x\<rceil> \<le> b" using assms(2) by (simp add: ceiling_le_iff)
  ultimately show ?thesis by simp
qed

lemma py_int_of_int: "py_int (of_int n) = n"
  by (simp add: py_int_def)

lemma measure_rms_single: "measure_rms [x] = \<bar>x\<bar>"
  by (simp add: measure_rms_def np_mean_def)

lemma set_gain_db_within:
  assumes "MIN_GAIN_DB cfg \<le> MAX_GAIN_DB cfg"
  shows "\<exists>v. set_gain_db cfg g = AmixerSset v \<and> MIN_GAIN_DB cfg \<le> v \<and> v \<le> MAX_GAIN_DB cfg"
proof -
  let ?c = "max (min g (of_int (MAX_GAIN_DB cfg))) (of_int (MIN_GAIN_DB cfg))"
  have lo: "of_int (MIN_GAIN_DB cfg) \<le> ?c" by simp
  have "real_of_int (MIN_GAIN_DB cfg) \<le> of_int (MAX_GAIN_DB cfg)" using assms by simp
  then have hi: "?c \<le> of_int (MAX_GAIN_DB cfg)" by simp
  from py_int_between [OF lo hi] show ?thesis by (simp add: set_gain_db_def)
qed

lemma startup_write:
  assumes "MIN_GAIN_DB cfg \<le> MAX_GAIN_DB cfg"
  shows "set_gain_db cfg (of_int ((MIN_GAIN_DB cfg + MAX_GAIN_DB cfg) div 2))
         = AmixerSset ((MIN_GAIN_DB cfg + MAX_GAIN_DB cfg) div 2)"
proof -
  let ?m = "(MIN_GAIN_DB cfg + MAX_GAIN_DB cfg) div 2"
  have "MIN_GAIN_DB cfg \<le> ?m" "?m \<le> MAX_GAIN_DB cfg" using assms by linarith+
  then have "real_of_int (MIN_GAIN_DB cfg) \<le> of_int ?m"
    and "real_of_int ?m \<le> of_int (MAX_GAIN_DB cfg)"
    by (simp_all only: of_int_le_iff)
  then have "max (min (real_of_int ?m) (of_int (MAX_GAIN_DB cfg))) (of_int (MIN_GAIN_DB cfg))
             = of_int ?m"
    by (simp add: min_def max_def)
  then show ?thesis by (simp add: set_gain_db_def Let_def py_int_of_int)
qed

lemma after_measurement_events:
  "fst (after_measurement cfg c rms reading) =
     (if snd (no_signal_detection cfg c rms) then [NoSignalAction] else [])
     @ (case reading of
          None \<Rightarrow> []
        | Some current_gain \<Rightarrow>
            (case gain_decision cfg rms current_gain of
               None \<Rightarrow> [] | Some g \<Rightarrow> [set_gain_db cfg g]))
     @ [Sleep]"
  by (simp add: after_measurement_def Let_def split: prod.splits option.splits)

lemma after_measurement_count:
  "snd (after_measurement cfg c rms reading) = fst (no_signal_detection cfg c rms)"
  by (simp add: after_measurement_def Let_def split: prod.splits option.splits)

lemma cycle_no_audio:
  assumes "captured inp = None \<or> captured inp = Some []"
  shows "cycle lib cfg c inp = ([Sleep], Inr c)"
  using assms by (auto simp: cycle_def)

lemma cycle_measured:
  assumes "captured inp = Some audio" and "audio \<noteq> []"
    and "bandpass_filter lib audio (LOWCUT cfg) (HIGHCUT cfg) (SAMPLING_RATE cfg)
           (FILTER_ORDER cfg) = Inr filtered"
  shows "cycle lib cfg c inp =
           (fst (after_measurement cfg c (measure_rms filtered) (gain_reading inp)),
            Inr (snd (after_measurement cfg c (measure_rms filtered) (gain_reading inp))))"
  using assms by (simp add: cycle_def split: prod.splits)

lemma cycle_raises:
  assumes "captured inp = Some audio" and "audio \<noteq> []"
    and "bandpass_filter lib audio (LOWCUT cfg) (HIGHCUT cfg) (SAMPLING_RATE cfg)
           (FILTER_ORDER cfg) = Inl e"
  shows "cycle lib cfg c inp = ([], Inl e)"
  using assms by (simp add: cycle_def)

lemma cycle_cases:
  obtains "cycle lib cfg c inp = ([Sleep], Inr c)"
  | e where "cycle lib cfg c inp = ([], Inl e)"
  | rms where "cycle lib cfg c inp =
      (fst (after_measurement cfg c rms (gain_reading inp)),
       Inr (snd (after_measurement cfg c rms (gain_reading inp))))"
proof (cases "captured inp = None \<or> captured inp = Some []")
  case True
  then have "cycle lib cfg c inp = ([Sleep], Inr c)" by (rule cycle_no_audio)
  then show ?thesis by (rule that(1))
next
  case False
  then obtain audio where a: "captured inp = Some audio" "audio \<noteq> []" by auto
  show ?thesis
  proof (cases "bandpass_filter lib audio (LOWCUT cfg) (HIGHCUT cfg) (SAMPLING_RATE cfg)
           (FILTER_ORDER cfg)")
    case (Inl e)
    with a have "cycle lib cfg c inp = ([], Inl e)" by (rule cycle_raises)
    then show ?thesis by (rule that(2))
  next
    case (Inr filtered)
    with a show ?thesis by (rule that(3) [OF cycle_measured])
  qed
qed

lemma dynamic_gain_control_trace:
  "fst (dynamic_gain_control lib cfg inps) =
     set_gain_db cfg (of_int ((MIN_GAIN_DB cfg + MAX_GAIN_DB cfg) div 2))
     # fst (control_loop lib cfg 0 inps)"
  by (simp add: dynamic_gain_control_def split: prod.splits)

lemma dynamic_gain_control_result:
  "snd (dynamic_gain_control lib cfg inps) = snd (control_loop lib cfg 0 inps)"
  by (simp add: dynamic_gain_control_def split: prod.splits)

section \<open>The written gain stays within the configured bounds\<close>

lemma after_measurement_writes:
  assumes "MIN_GAIN_DB cfg \<le> MAX_GAIN_DB cfg"
    and "v \<in> set (writes (fst (after_measurement cfg c rms reading)))"
  shows "MIN_GAIN_DB cfg \<le> v \<and> v \<le> MAX_GAIN_DB cfg"
proof -
  from assms(2) obtain g where "AmixerSset v = set_gain_db cfg g"
    by (auto simp: set_writes after_measurement_events split: option.splits if_splits)
  with set_gain_db_within [OF assms(1), of g] show ?thesis by auto
qed

lemma cycle_writes:
  assumes "MIN_GAIN_DB cfg \<le> MAX_GAIN_DB cfg"
    and "v \<in> set (writes (fst (cycle lib cfg c inp)))"
  shows "MIN_GAIN_DB cfg \<le> v \<and> v \<le> MAX_GAIN_DB cfg"
proof (cases rule: cycle_cases [of lib cfg c inp])
  case 1
  with assms(2) show ?thesis by simp
next
  case (2 e)
  with assms(2) show ?thesis by simp
next
  case (3 rms)
  with assms(2)
  have "v \<in> set (writes (fst (after_measurement cfg c rms (gain_reading inp))))" by simp
  with assms(1) show ?thesis by (rule after_measurement_writes)
qed

lemma control_loop_writes:
  assumes "MIN_GAIN_DB cfg \<le> MAX_GAIN_DB cfg"
    and "v \<in> set (writes (fst (control_loop lib cfg c inps)))"
  shows "MIN_GAIN_DB cfg \<le> v \<and> v \<le> MAX_GAIN_DB cfg"
  using assms(2)
proof (induction inps arbitrary: c)
  case Nil
  then show ?case by simp
next
  case (Cons inp inps)
  obtain evs r where cy: "cycle lib cfg c inp = (evs, r)"
    by (cases "cycle lib cfg c inp")
  show ?case
  proof (cases r)
    case (Inl e)
    with cy Cons.prems have "v \<in> set (writes (fst (cycle lib cfg c inp)))" by simp
    with assms(1) show ?thesis by (rule cycle_writes)
  next
    case (Inr c')
    with cy Cons.prems
    have "v \<in> set (writes evs) \<or> v \<in> set (writes (fst (control_loop lib cfg c' inps)))"
      by (auto simp: writes_append split: prod.splits)
    then show ?thesis
    proof
      assume "v \<in> set (writes evs)"
      with cy have "v \<in> set (writes (fst (cycle lib cfg c inp)))" by simp
      with assms(1) show ?thesis by (rule cycle_writes)
    next
      assume "v \<in> set (writes (fst (control_loop lib cfg c' inps)))"
      then show ?thesis by (rule Cons.IH)
    qed
  qed
qed

text \<open>
  Claim C1. Whenever the configured bounds are ordered, every value the controller writes
  with \<open>amixer sset\<close> lies between \<open>MIN_GAIN_DB\<close> and \<open>MAX_GAIN_DB\<close>: this holds for
  the startup write, which is the floor of the midpoint, and for every write of every
  cycle, whatever the captured audio, the filter and the gain readings of the cycles are.
\<close>

theorem written_gain_within_bounds:
  assumes "MIN_GAIN_DB cfg \<le> MAX_GAIN_DB cfg"
  shows "hd (writes (fst (dynamic_gain_control lib cfg inps)))
           = (MIN_GAIN_DB cfg + MAX_GAIN_DB cfg) div 2
       \<and> (\<forall>v \<in> set (writes (fst (dynamic_gain_control lib cfg inps))).
             MIN_GAIN_DB cfg \<le> v \<and> v \<le> MAX_GAIN_DB cfg)"
proof
  show "hd (writes (fst (dynamic_gain_control lib cfg inps)))
           = (MIN_GAIN_DB cfg + MAX_GAIN_DB cfg) div 2"
    by (simp add: dynamic_gain_control_trace startup_write [OF assms])
  show "\<forall>v \<in> set (writes (fst (dynamic_gain_control lib cfg inps))).
           MIN_GAIN_DB cfg \<le> v \<and> v \<le> MAX_GAIN_DB cfg"
  proof
    fix v assume "v \<in> set (writes (fst (dynamic_gain_control lib cfg inps)))"
    then consider "v = (MIN_GAIN_DB cfg + MAX_GAIN_DB cfg) div 2"
      | "v \<in> set (writes (fst (control_loop lib cfg 0 inps)))"
      by (auto simp: dynamic_gain_control_trace startup_write [OF assms])
    then show "MIN_GAIN_DB cfg \<le> v \<and> v \<le> MAX_GAIN_DB cfg"
    proof cases
      case 1
      with assms show ?thesis by linarith
    next
      case 2
      with assms show ?thesis by (rule control_loop_writes)
    qed
  qed
qed

theorem written_gain_within_bounds_witness:
  "MIN_GAIN_DB default_config \<le> MAX_GAIN_DB default_config
   \<and> writes (fst (dynamic_gain_control checking_lib default_config
        [\<lparr>captured = Some [1], gain_reading = Some 30\<rparr>])) = [34, 30]
   \<and> hd [34, 30] = (MIN_GAIN_DB default_config + MAX_GAIN_DB default_config) div 2
   \<and> MIN_GAIN_DB default_config \<le> 34 \<and> 34 \<le> MAX_GAIN_DB default_config
   \<and> MIN_GAIN_DB default_config \<le> 30 \<and> 30 \<le> MAX_GAIN_DB default_config"
proof -
  have h: "MIN_GAIN_DB default_config \<le> MAX_GAIN_DB default_config"
    by (simp add: default_config_def)
  have w: "writes (fst (dynamic_gain_control checking_lib default_config
        [\<lparr>captured = Some [1], gain_reading = Some 30\<rparr>])) = [34, 30]"
    by (simp add: dynamic_gain_control_def cycle_def bandpass_filter_def checking_lib_def
        invalid_cutoffs_def measure_rms_single after_measurement_def no_signal_detection_def
        gain_decision_def set_gain_db_def py_int_def default_config_def)
  from written_gain_within_bounds [OF h, of checking_lib
      "[\<lparr>captured = Some [1], gain_reading = Some 30\<rparr>]"]
  show ?thesis unfolding w using h w by simp
qed

section \<open>The dead zone\<close>

text \<open>
  Claim C2. When the measurement lies between \<open>NOISE_THRESHOLD_LOW\<close> and
  \<open>NOISE_THRESHOLD_HIGH\<close>, both included, the gain decision proposes nothing, and the
  cycle that made this measurement calls \<open>amixer sset\<close> not at all, whatever the counter
  and the gain reading are.
\<close>

theorem dead_zone_no_write:
  assumes "NOISE_THRESHOLD_LOW cfg \<le> m" and "m \<le> NOISE_THRESHOLD_HIGH cfg"
  shows "gain_decision cfg m g = None
       \<and> writes (fst (after_measurement cfg c m reading)) = []
       \<and> (captured inp = Some audio \<and> audio \<noteq> []
          \<and> bandpass_filter lib audio (LOWCUT cfg) (HIGHCUT cfg) (SAMPLING_RATE cfg)
              (FILTER_ORDER cfg) = Inr filtered
          \<and> measure_rms filtered = m
          \<longrightarrow> writes (fst (cycle lib cfg c inp)) = [])"
proof -
  from assms have d: "gain_decision cfg m g' = None" for g'
    by (simp add: gain_decision_def)
  then have a: "writes (fst (after_measurement cfg c m r)) = []" for r
    by (simp add: after_measurement_events writes_append split: option.splits)
  from d a show ?thesis by (auto simp: cycle_measured)
qed

theorem dead_zone_no_write_witness:
  "NOISE_THRESHOLD_LOW default_config \<le> 0.005 \<and> 0.005 \<le> NOISE_THRESHOLD_HIGH default_config
   \<and> captured \<lparr>captured = Some [0.005], gain_reading = Some 34\<rparr> = Some [0.005]
   \<and> [0.005::real] \<noteq> []
   \<and> bandpass_filter checking_lib [0.005] (LOWCUT default_config) (HIGHCUT default_config)
       (SAMPLING_RATE default_config) (FILTER_ORDER default_config) = Inr [0.005]
   \<and> measure_rms [0.005] = 0.005
   \<and> gain_decision default_config 0.005 34 = None
   \<and> writes (fst (after_measurement default_config 0 0.005 (Some 34))) = []
   \<and> writes (fst (cycle checking_lib default_config 0
        \<lparr>captured = Some [0.005], gain_reading = Some 34\<rparr>)) = []"
proof -
  have h1: "NOISE_THRESHOLD_LOW default_config \<le> 0.005"
    and h2: "0.005 \<le> NOISE_THRESHOLD_HIGH default_config"
    by (simp_all add: default_config_def)
  have b: "bandpass_filter checking_lib [0.005] (LOWCUT default_config) (HIGHCUT default_config)
       (SAMPLING_RATE default_config) (FILTER_ORDER default_config) = Inr [0.005]"
    by (simp add: bandpass_filter_def checking_lib_def invalid_cutoffs_def default_config_def)
  have r: "measure_rms [0.005] = 0.005"
    by (simp add: measure_rms_single)
  from dead_zone_no_write [OF h1 h2, of 34 0 "Some 34"
      "\<lparr>captured = Some [0.005], gain_reading = Some 34\<rparr>" "[0.005]" checking_lib "[0.005]"]
    h1 h2 b r
  show ?thesis by simp
qed

section \<open>Capture failure\<close>

text \<open>
  Claim C8. When the capture returns nothing or an empty buffer, the cycle does nothing
  but sleep: no filtering, no measurement, no no-signal detection, no gain decision and no
  write; the counter \<open>no_signal_count\<close> is the same afterwards, and the loop goes on with
  the next cycle from this unchanged counter.
\<close>

theorem capture_failure_skips_cycle:
  assumes "captured inp = None \<or> captured inp = Some []"
  shows "cycle lib cfg c inp = ([Sleep], Inr c)
       \<and> control_loop lib cfg c (inp # inps)
           = (Sleep # fst (control_loop lib cfg c inps), snd (control_loop lib cfg c inps))"
  using assms by (auto simp: cycle_def split: prod.splits)

theorem capture_failure_skips_cycle_witness:
  "(captured \<lparr>captured = Some [], gain_reading = Some 30\<rparr> = None
      \<or> captured \<lparr>captured = Some [], gain_reading = Some 30\<rparr> = Some [])
   \<and> cycle checking_lib default_config 2 \<lparr>captured = Some [], gain_reading = Some 30\<rparr>
       = ([Sleep], Inr 2)
   \<and> control_loop checking_lib default_config 2
       [\<lparr>captured = Some [], gain_reading = Some 30\<rparr>, \<lparr>captured = None, gain_reading = None\<rparr>]
       = ([Sleep, Sleep], Inr 2)"
proof -
  have h: "captured \<lparr>captured = Some [], gain_reading = Some 30\<rparr> = None
      \<or> captured \<lparr>captured = Some [], gain_reading = Some 30\<rparr> = Some []"
    by simp
  have n: "control_loop checking_lib default_config 2 [\<lparr>captured = None, gain_reading = None\<rparr>]
      = ([Sleep], Inr 2)"
    by (simp add: cycle_def)
  from capture_failure_skips_cycle [OF h, of checking_lib default_config 2
      "[\<lparr>captured = None, gain_reading = None\<rparr>]", unfolded n] h
  show ?thesis by (simp only: fst_conv snd_conv simp_thms)
qed

section \<open>The level meter\<close>

lemma sum_list_squares_nth:
  "sum_list (map (\<lambda>x. x ^ 2) xs) = (\<Sum>i<length xs. (xs ! i) ^ 2)" for xs :: "real list"
  by (simp add: sum_list_sum_nth atLeast0LessThan)

lemma sum_list_squares_nonneg: "0 \<le> sum_list (map (\<lambda>x. x ^ 2) xs)" for xs :: "real list"
  by (induction xs) simp_all

text \<open>
  Claim C9. On a sequence that has samples, \<open>measure_rms\<close> returns the square root of
  the mean of the squared samples; its result is never negative; on the empty sequence it
  returns exactly 0 (the mean is not taken there).
\<close>

theorem measure_rms_is_root_mean_square:
  "(xs \<noteq> [] \<longrightarrow> measure_rms xs = rms_spec xs) \<and> 0 \<le> measure_rms xs \<and> measure_rms [] = 0"
proof (intro conjI impI)
  assume "xs \<noteq> []"
  then show "measure_rms xs = rms_spec xs"
    by (simp add: measure_rms_def rms_spec_def np_mean_def sum_list_squares_nth)
next
  show "0 \<le> measure_rms xs"
    using sum_list_squares_nonneg [of xs] by (simp add: measure_rms_def np_mean_def)
next
  show "measure_rms [] = 0" by (simp add: measure_rms_def)
qed

theorem measure_rms_is_root_mean_square_witness:
  "[2, 2 :: real] \<noteq> [] \<and> measure_rms [2, 2] = 2 \<and> rms_spec [2, 2] = 2
   \<and> 0 \<le> measure_rms [2, 2]"
proof -
  have v: "measure_rms [2, 2] = 2"
    by (simp add: measure_rms_def np_mean_def)
  from measure_rms_is_root_mean_square [of "[2, 2]"] show ?thesis unfolding v by simp
qed

section \<open>Step, then clamp\<close>





section \<open>No-signal detection\<close>

lemma no_signal_detection_below:
  "rms < NO_SIGNAL_THRESHOLD cfg \<Longrightarrow>
     no_signal_detection cfg c rms = (c + 1, NO_SIGNAL_COUNT_THRESHOLD cfg \<le> c + 1)"
  by (simp add: no_signal_detection_def Let_def)

lemma no_signal_detection_reset:
  "\<not> rms < NO_SIGNAL_THRESHOLD cfg \<Longrightarrow> no_signal_detection cfg c rms = (0, False)"
  by (simp add: no_signal_detection_def)

lemma after_measurement_action:
  "NoSignalAction \<in> set (fst (after_measurement cfg c m reading))
     \<longleftrightarrow> snd (no_signal_detection cfg c m)"
  by (simp add: after_measurement_events set_gain_db_def Let_def split: option.splits)

lemma after_measurement_sleep:
  "\<exists>pre. fst (after_measurement cfg c m reading) = pre @ [Sleep] \<and> Sleep \<notin> set pre
     \<and> (NoSignalAction \<in> set pre \<longleftrightarrow> snd (no_signal_detection cfg c m))"
  by (simp add: after_measurement_events set_gain_db_def Let_def split: option.splits)

lemma fired_segment:
  "Sleep \<notin> set pre \<Longrightarrow>
     fired a (pre @ Sleep # rest) = (a \<or> NoSignalAction \<in> set pre) # fired False rest"
proof (induction pre arbitrary: a)
  case Nil
  then show ?case by simp
next
  case (Cons e pre)
  then show ?case by (cases e) auto
qed

lemma bandpass_accepted:
  "butter lib n (lo, hi) fs = Inr s \<Longrightarrow>
     bandpass_filter lib audio lo hi fs n = Inr (sosfilt lib s audio)"
  by (simp add: bandpass_filter_def)

lemma measured_accepted:
  assumes "measured lib cfg inp = Some m"
  shows "\<exists>s. butter lib (FILTER_ORDER cfg) (LOWCUT cfg, HIGHCUT cfg) (SAMPLING_RATE cfg) = Inr s"
  using assms
  by (auto simp: measured_def bandpass_filter_def split: option.splits if_splits sum.splits)

text \<open>A cycle that does not raise updates the counter as \<open>cycle_update\<close> says.\<close>

lemma cycle_is_update:
  assumes "butter lib (FILTER_ORDER cfg) (LOWCUT cfg, HIGHCUT cfg) (SAMPLING_RATE cfg) = Inr s"
  shows "\<exists>pre. cycle lib cfg c inp
            = (pre @ [Sleep], Inr (fst (cycle_update cfg c (measured lib cfg inp))))
          \<and> Sleep \<notin> set pre
          \<and> (NoSignalAction \<in> set pre \<longleftrightarrow> snd (cycle_update cfg c (measured lib cfg inp)))"
proof (cases "captured inp = None \<or> captured inp = Some []")
  case True
  then have "cycle lib cfg c inp = ([] @ [Sleep], Inr c)" by (simp add: cycle_no_audio)
  moreover from True have "measured lib cfg inp = None" by (auto simp: measured_def)
  ultimately show ?thesis by (simp add: cycle_update_def)
next
  case False
  then obtain audio where a: "captured inp = Some audio" "audio \<noteq> []" by auto
  let ?f = "sosfilt lib s audio"
  from assms have b: "bandpass_filter lib audio (LOWCUT cfg) (HIGHCUT cfg) (SAMPLING_RATE cfg)
           (FILTER_ORDER cfg) = Inr ?f"
    by (rule bandpass_accepted)
  from a b have m: "measured lib cfg inp = Some (measure_rms ?f)"
    by (simp add: measured_def)
  from after_measurement_sleep [of cfg c "measure_rms ?f" "gain_reading inp"]
  obtain pre where p: "fst (after_measurement cfg c (measure_rms ?f) (gain_reading inp))
        = pre @ [Sleep]" "Sleep \<notin> set pre"
      "NoSignalAction \<in> set pre \<longleftrightarrow> snd (no_signal_detection cfg c (measure_rms ?f))"
    by blast
  from cycle_measured [OF a b] p(1)
  have "cycle lib cfg c inp
          = (pre @ [Sleep], Inr (fst (no_signal_detection cfg c (measure_rms ?f))))"
    by (simp add: after_measurement_count)
  with p(2,3) m show ?thesis by (simp add: cycle_update_def)
qed

lemma no_signal_run_cons:
  "no_signal_run cfg c (m # ms) =
     (fst (no_signal_run cfg (fst (cycle_update cfg c m)) ms),
      snd (cycle_update cfg c m) # snd (no_signal_run cfg (fst (cycle_update cfg c m)) ms))"
  by (simp split: prod.splits)

lemma no_signal_run_snoc:
  "no_signal_run cfg c (ms @ [m]) =
     (fst (cycle_update cfg (fst (no_signal_run cfg c ms)) m),
      snd (no_signal_run cfg c ms) @ [snd (cycle_update cfg (fst (no_signal_run cfg c ms)) m)])"
  by (induction ms arbitrary: c) (simp_all add: no_signal_run_cons del: no_signal_run.simps(2))

lemma no_signal_run_length: "length (snd (no_signal_run cfg c ms)) = length ms"
  by (induction ms arbitrary: c) (simp_all add: no_signal_run_cons del: no_signal_run.simps(2))

text \<open>The loop carries the counter from cycle to cycle as \<open>no_signal_run\<close> does.\<close>

lemma control_loop_is_run:
  assumes "butter lib (FILTER_ORDER cfg) (LOWCUT cfg, HIGHCUT cfg) (SAMPLING_RATE cfg) = Inr s"
  shows "snd (control_loop lib cfg c inps)
           = Inr (fst (no_signal_run cfg c (map (measured lib cfg) inps)))
       \<and> fired False (fst (control_loop lib cfg c inps))
           = snd (no_signal_run cfg c (map (measured lib cfg) inps))"
proof (induction inps arbitrary: c)
  case Nil
  show ?case by simp
next
  case (Cons inp inps)
  let ?u = "cycle_update cfg c (measured lib cfg inp)"
  from cycle_is_update [OF assms, of c inp]
  obtain pre where p: "cycle lib cfg c inp = (pre @ [Sleep], Inr (fst ?u))"
      "Sleep \<notin> set pre" "NoSignalAction \<in> set pre \<longleftrightarrow> snd ?u"
    by blast
  from p(1) have l: "control_loop lib cfg c (inp # inps)
      = (pre @ Sleep # fst (control_loop lib cfg (fst ?u) inps),
         snd (control_loop lib cfg (fst ?u) inps))"
    by (simp split: prod.splits)
  from Cons.IH [of "fst ?u"] p(2,3) show ?case
    unfolding l by (simp add: fired_segment no_signal_run_cons del: no_signal_run.simps(2))
qed

lemma dynamic_gain_control_is_run:
  assumes "butter lib (FILTER_ORDER cfg) (LOWCUT cfg, HIGHCUT cfg) (SAMPLING_RATE cfg) = Inr s"
  shows "snd (dynamic_gain_control lib cfg inps)
           = Inr (fst (no_signal_run cfg 0 (map (measured lib cfg) inps)))
       \<and> fired False (fst (dynamic_gain_control lib cfg inps))
           = snd (no_signal_run cfg 0 (map (measured lib cfg) inps))"
  using control_loop_is_run [OF assms, of 0 inps]
  by (simp add: dynamic_gain_control_trace dynamic_gain_control_result set_gain_db_def Let_def)

lemma no_signal_run_fires:
  "i < length ms \<Longrightarrow>
     snd (no_signal_run cfg c ms) ! i =
       (\<exists>m. ms ! i = Some m \<and> m < NO_SIGNAL_THRESHOLD cfg
          \<and> NO_SIGNAL_COUNT_THRESHOLD cfg \<le> fst (no_signal_run cfg c (take (Suc i) ms)))"
proof (induction ms arbitrary: i rule: rev_induct)
  case Nil
  then show ?case by simp
next
  case (snoc m ms)
  show ?case
  proof (cases "i < length ms")
    case True
    then show ?thesis using snoc.IH [OF True]
      by (simp add: no_signal_run_snoc nth_append no_signal_run_length)
  next
    case False
    with snoc.prems have i: "i = length ms" by simp
    show ?thesis
    proof (cases m)
      case None
      then show ?thesis
        by (simp add: i no_signal_run_snoc nth_append no_signal_run_length cycle_update_def)
    next
      case (Some x)
      then show ?thesis
        by (cases "x < NO_SIGNAL_THRESHOLD cfg")
           (simp_all add: i no_signal_run_snoc nth_append no_signal_run_length cycle_update_def
              no_signal_detection_below no_signal_detection_reset)
    qed
  qed
qed

lemma no_signal_run_all_below:
  "\<forall>m \<in> set ms. \<exists>x. m = Some x \<and> x < NO_SIGNAL_THRESHOLD cfg \<Longrightarrow>
     no_signal_run cfg c ms =
       (c + int (length ms),
        map (\<lambda>k. NO_SIGNAL_COUNT_THRESHOLD cfg \<le> c + int k) [1 ..< Suc (length ms)])"
proof (induction ms rule: rev_induct)
  case Nil
  then show ?case by simp
next
  case (snoc m ms)
  then obtain x where "m = Some x" "x < NO_SIGNAL_THRESHOLD cfg" by auto
  with snoc show ?case
    by (simp add: no_signal_run_snoc cycle_update_def no_signal_detection_below
        add.commute add.left_commute)
qed

lemma silent_run:
  assumes "\<forall>inp \<in> set inps. \<exists>m. measured lib cfg inp = Some m \<and> m < NO_SIGNAL_THRESHOLD cfg"
  shows "snd (dynamic_gain_control lib cfg inps) = Inr (int (length inps))
       \<and> fired False (fst (dynamic_gain_control lib cfg inps))
           = map (\<lambda>k. NO_SIGNAL_COUNT_THRESHOLD cfg \<le> int k) [1 ..< Suc (length inps)]"
proof (cases inps)
  case Nil
  then show ?thesis
    by (simp add: dynamic_gain_control_trace dynamic_gain_control_result set_gain_db_def Let_def)
next
  case (Cons inp rest)
  with assms obtain m where "measured lib cfg inp = Some m" by auto
  then obtain s
    where s: "butter lib (FILTER_ORDER cfg) (LOWCUT cfg, HIGHCUT cfg) (SAMPLING_RATE cfg) = Inr s"
    using measured_accepted by blast
  from assms
  have "\<forall>m \<in> set (map (measured lib cfg) inps). \<exists>x. m = Some x \<and> x < NO_SIGNAL_THRESHOLD cfg"
    by auto
  from no_signal_run_all_below [OF this, of 0] dynamic_gain_control_is_run [OF s, of inps]
  show ?thesis by simp
qed

text \<open>
  Claim C4. One update increments the counter when the measurement is below
  \<open>NO_SIGNAL_THRESHOLD\<close> and resets it to 0 otherwise, and reports the action due
  exactly when the incremented counter has reached \<open>NO_SIGNAL_COUNT_THRESHOLD\<close>.
  The control loop applies this update in every cycle that measures, to the counter the
  previous cycle left, starting from 0: for any inputs on which the filter design does
  not raise, the counter the loop ends with and the cycles in which it executed the
  no-signal action are those of \<open>no_signal_run\<close> over the cycles' measurements. In
  such a run a cycle fires exactly when its measurement is below the threshold and the
  counter it leaves has reached the limit, with no suppression. So over cycles that all
  measure below the threshold the loop's counter grows by one per cycle without bound,
  and the cycle number \<open>k\<close> executes the action exactly when \<open>k\<close> has reached the limit:
  with the shipped limit 3 the third silent cycle is the first to fire and every later
  one fires too.
\<close>

theorem no_signal_watchdog:
  "(m < NO_SIGNAL_THRESHOLD cfg \<longrightarrow>
      no_signal_detection cfg c m = (c + 1, NO_SIGNAL_COUNT_THRESHOLD cfg \<le> c + 1))
   \<and> (\<not> m < NO_SIGNAL_THRESHOLD cfg \<longrightarrow> no_signal_detection cfg c m = (0, False))
   \<and> (butter lib (FILTER_ORDER cfg) (LOWCUT cfg, HIGHCUT cfg) (SAMPLING_RATE cfg) = Inr s \<longrightarrow>
        snd (control_loop lib cfg c inps)
          = Inr (fst (no_signal_run cfg c (map (measured lib cfg) inps)))
        \<and> fired False (fst (control_loop lib cfg c inps))
          = snd (no_signal_run cfg c (map (measured lib cfg) inps))
        \<and> snd (dynamic_gain_control lib cfg inps)
          = Inr (fst (no_signal_run cfg 0 (map (measured lib cfg) inps)))
        \<and> fired False (fst (dynamic_gain_control lib cfg inps))
          = snd (no_signal_run cfg 0 (map (measured lib cfg) inps)))
   \<and> no_signal_run cfg c (ms @ [Some m]) =
       (fst (no_signal_detection cfg (fst (no_signal_run cfg c ms)) m),
        snd (no_signal_run cfg c ms)
        @ [snd (no_signal_detection cfg (fst (no_signal_run cfg c ms)) m)])
   \<and> no_signal_run cfg c (ms @ [None]) =
       (fst (no_signal_run cfg c ms), snd (no_signal_run cfg c ms) @ [False])
   \<and> (\<forall>i < length ms.
        snd (no_signal_run cfg c ms) ! i =
          (\<exists>x. ms ! i = Some x \<and> x < NO_SIGNAL_THRESHOLD cfg
             \<and> NO_SIGNAL_COUNT_THRESHOLD cfg \<le> fst (no_signal_run cfg c (take (Suc i) ms))))
   \<and> ((\<forall>inp \<in> set inps. \<exists>x. measured lib cfg inp = Some x \<and> x < NO_SIGNAL_THRESHOLD cfg) \<longrightarrow>
        snd (dynamic_gain_control lib cfg inps) = Inr (int (length inps))
        \<and> fired False (fst (dynamic_gain_control lib cfg inps))
            = map (\<lambda>k. NO_SIGNAL_COUNT_THRESHOLD cfg \<le> int k) [1 ..< Suc (length inps)])
   \<and> (NO_SIGNAL_COUNT_THRESHOLD cfg = 3 \<and> length inps = 3
      \<and> (\<forall>inp \<in> set inps. \<exists>x. measured lib cfg inp = Some x \<and> x < NO_SIGNAL_THRESHOLD cfg) \<longrightarrow>
        snd (dynamic_gain_control lib cfg inps) = Inr 3
        \<and> fired False (fst (dynamic_gain_control lib cfg inps)) = [False, False, True])"
proof -
  have below: "m < NO_SIGNAL_THRESHOLD cfg \<longrightarrow>
      no_signal_detection cfg c m = (c + 1, NO_SIGNAL_COUNT_THRESHOLD cfg \<le> c + 1)"
    by (simp add: no_signal_detection_below)
  have reset: "\<not> m < NO_SIGNAL_THRESHOLD cfg \<longrightarrow> no_signal_detection cfg c m = (0, False)"
    by (simp add: no_signal_detection_reset)
  have loop: "butter lib (FILTER_ORDER cfg) (LOWCUT cfg, HIGHCUT cfg) (SAMPLING_RATE cfg) = Inr s \<longrightarrow>
        snd (control_loop lib cfg c inps)
          = Inr (fst (no_signal_run cfg c (map (measured lib cfg) inps)))
        \<and> fired False (fst (control_loop lib cfg c inps))
          = snd (no_signal_run cfg c (map (measured lib cfg) inps))
        \<and> snd (dynamic_gain_control lib cfg inps)
          = Inr (fst (no_signal_run cfg 0 (map (measured lib cfg) inps)))
        \<and> fired False (fst (dynamic_gain_control lib cfg inps))
          = snd (no_signal_run cfg 0 (map (measured lib cfg) inps))"
    using control_loop_is_run [of lib cfg s c inps] dynamic_gain_control_is_run [of lib cfg s inps]
    by blast
  have some: "no_signal_run cfg c (ms @ [Some m]) =
       (fst (no_signal_detection cfg (fst (no_signal_run cfg c ms)) m),
        snd (no_signal_run cfg c ms)
        @ [snd (no_signal_detection cfg (fst (no_signal_run cfg c ms)) m)])"
    by (simp add: no_signal_run_snoc cycle_update_def)
  have none: "no_signal_run cfg c (ms @ [None]) =
       (fst (no_signal_run cfg c ms), snd (no_signal_run cfg c ms) @ [False])"
    by (simp add: no_signal_run_snoc cycle_update_def)
  have fires: "\<forall>i < length ms.
        snd (no_signal_run cfg c ms) ! i =
          (\<exists>x. ms ! i = Some x \<and> x < NO_SIGNAL_THRESHOLD cfg
             \<and> NO_SIGNAL_COUNT_THRESHOLD cfg \<le> fst (no_signal_run cfg c (take (Suc i) ms)))"
    using no_signal_run_fires by blast
  have silent: "(\<forall>inp \<in> set inps. \<exists>x. measured lib cfg inp = Some x \<and> x < NO_SIGNAL_THRESHOLD cfg) \<longrightarrow>
        snd (dynamic_gain_control lib cfg inps) = Inr (int (length inps))
        \<and> fired False (fst (dynamic_gain_control lib cfg inps))
            = map (\<lambda>k. NO_SIGNAL_COUNT_THRESHOLD cfg \<le> int k) [1 ..< Suc (length inps)]"
    using silent_run by blast
  have three: "snd (dynamic_gain_control lib cfg inps) = Inr 3
        \<and> fired False (fst (dynamic_gain_control lib cfg inps)) = [False, False, True]"
    if "NO_SIGNAL_COUNT_THRESHOLD cfg = 3 \<and> length inps = 3
      \<and> (\<forall>inp \<in> set inps. \<exists>x. measured lib cfg inp = Some x \<and> x < NO_SIGNAL_THRESHOLD cfg)"
    using silent_run [of inps lib cfg] that by (simp add: upt_rec)
  from below reset loop some none fires silent three show ?thesis by blast
qed

theorem no_signal_watchdog_witness:
  "1 / 10 ^ 7 < NO_SIGNAL_THRESHOLD default_config
   \<and> no_signal_detection default_config 2 (1 / 10 ^ 7) = (3, True)
   \<and> \<not> 1 < NO_SIGNAL_THRESHOLD default_config
   \<and> no_signal_detection default_config 5 1 = (0, False)
   \<and> butter checking_lib (FILTER_ORDER default_config)
       (LOWCUT default_config, HIGHCUT default_config) (SAMPLING_RATE default_config) = Inr []
   \<and> measured checking_lib default_config \<lparr>captured = Some [0], gain_reading = None\<rparr> = Some 0
   \<and> 0 < NO_SIGNAL_THRESHOLD default_config
   \<and> NO_SIGNAL_COUNT_THRESHOLD default_config = 3
   \<and> dynamic_gain_control checking_lib default_config
       [\<lparr>captured = Some [0], gain_reading = None\<rparr>, \<lparr>captured = Some [0], gain_reading = None\<rparr>,
        \<lparr>captured = Some [0], gain_reading = None\<rparr>]
       = ([AmixerSset 34, Sleep, Sleep, NoSignalAction, Sleep], Inr 3)
   \<and> fired False [AmixerSset 34, Sleep, Sleep, NoSignalAction, Sleep] = [False, False, True]
   \<and> snd (dynamic_gain_control checking_lib default_config
       [\<lparr>captured = Some [0], gain_reading = None\<rparr>, \<lparr>captured = Some [0], gain_reading = None\<rparr>,
        \<lparr>captured = Some [1], gain_reading = None\<rparr>, \<lparr>captured = None, gain_reading = None\<rparr>,
        \<lparr>captured = Some [0], gain_reading = None\<rparr>]) = Inr 1
   \<and> fired False (fst (dynamic_gain_control checking_lib default_config
       [\<lparr>captured = Some [0], gain_reading = None\<rparr>, \<lparr>captured = Some [0], gain_reading = None\<rparr>,
        \<lparr>captured = Some [1], gain_reading = None\<rparr>, \<lparr>captured = None, gain_reading = None\<rparr>,
        \<lparr>captured = Some [0], gain_reading = None\<rparr>])) = [False, False, False, False, False]"
proof -
  let ?silent = "\<lparr>captured = Some [0], gain_reading = None\<rparr>"
  let ?loud = "\<lparr>captured = Some [1], gain_reading = None\<rparr>"
  let ?failed = "\<lparr>captured = None, gain_reading = None\<rparr>"
  have h: "1 / 10 ^ 7 < NO_SIGNAL_THRESHOLD default_config"
    "\<not> 1 < NO_SIGNAL_THRESHOLD default_config"
    "0 < NO_SIGNAL_THRESHOLD default_config"
    "NO_SIGNAL_COUNT_THRESHOLD default_config = 3"
    by (simp_all add: default_config_def)
  have b: "butter checking_lib (FILTER_ORDER default_config)
       (LOWCUT default_config, HIGHCUT default_config) (SAMPLING_RATE default_config) = Inr []"
    by (simp add: checking_lib_def invalid_cutoffs_def default_config_def)
  have bp: "bandpass_filter checking_lib audio (LOWCUT default_config) (HIGHCUT default_config)
       (SAMPLING_RATE default_config) (FILTER_ORDER default_config) = Inr audio" for audio
    using bandpass_accepted [OF b] by (simp add: checking_lib_def)
  have ms: "measured checking_lib default_config ?silent = Some 0"
    "measured checking_lib default_config ?loud = Some 1"
    "measured checking_lib default_config ?failed = None"
    by (simp_all add: measured_def bp measure_rms_single)
  note t = no_signal_watchdog [where m = "1 / 10 ^ 7" and cfg = default_config and c = 2
      and lib = checking_lib and s = "[]" and inps = "[?silent, ?silent, ?silent]" and ms = "[]"]
  from t h(1)
  have "no_signal_detection default_config 2 (1 / 10 ^ 7)
          = (2 + 1, NO_SIGNAL_COUNT_THRESHOLD default_config \<le> 2 + 1)"
    by blast
  then have a: "no_signal_detection default_config 2 (1 / 10 ^ 7) = (3, True)"
    by (simp add: h(4))
  note u = no_signal_watchdog [where m = 1 and cfg = default_config and c = 5
      and lib = checking_lib and s = "[]" and inps = "[?silent, ?silent, ?loud, ?failed, ?silent]"
      and ms = "[]"]
  from u h(2) have r: "no_signal_detection default_config 5 1 = (0, False)"
    by blast
  have "\<forall>inp \<in> set [?silent, ?silent, ?silent].
          \<exists>x. measured checking_lib default_config inp = Some x
            \<and> x < NO_SIGNAL_THRESHOLD default_config"
    using ms(1) h(3) by simp
  with t h(4)
  have three: "snd (dynamic_gain_control checking_lib default_config [?silent, ?silent, ?silent])
          = Inr 3
      \<and> fired False (fst (dynamic_gain_control checking_lib default_config
          [?silent, ?silent, ?silent])) = [False, False, True]"
    by simp
  have tr: "dynamic_gain_control checking_lib default_config [?silent, ?silent, ?silent]
       = ([AmixerSset 34, Sleep, Sleep, NoSignalAction, Sleep], Inr 3)"
    by (simp add: dynamic_gain_control_def cycle_def bp measure_rms_single after_measurement_def
        no_signal_detection_def h(3) h(4) set_gain_db_def py_int_def)
       (simp add: default_config_def)
  from u b
  have "snd (dynamic_gain_control checking_lib default_config
              [?silent, ?silent, ?loud, ?failed, ?silent])
          = Inr (fst (no_signal_run default_config 0
              (map (measured checking_lib default_config)
                [?silent, ?silent, ?loud, ?failed, ?silent])))
      \<and> fired False (fst (dynamic_gain_control checking_lib default_config
              [?silent, ?silent, ?loud, ?failed, ?silent]))
          = snd (no_signal_run default_config 0
              (map (measured checking_lib default_config)
                [?silent, ?silent, ?loud, ?failed, ?silent]))"
    by blast
  then have mixed: "snd (dynamic_gain_control checking_lib default_config
              [?silent, ?silent, ?loud, ?failed, ?silent]) = Inr 1
      \<and> fired False (fst (dynamic_gain_control checking_lib default_config
              [?silent, ?silent, ?loud, ?failed, ?silent]))
          = [False, False, False, False, False]"
    by (simp add: ms cycle_update_def no_signal_detection_def h)
  have f: "fired False [AmixerSset 34, Sleep, Sleep, NoSignalAction, Sleep] = [False, False, True]"
    by simp
  from h a r b ms(1) tr f mixed show ?thesis by blast
qed

section \<open>Calibration\<close>

lemma def_full_scale_pos: "0 < def_full_scale"
  by (simp add: def_full_scale_def REFERENCE_PRESSURE_def)

lemma calibrate_default_mic_params:
  "calibrate_and_propose cfg default_mic_params =
     \<lparr> noise_threshold_high = NOISE_THRESHOLD_HIGH cfg,
       noise_threshold_low = NOISE_THRESHOLD_LOW cfg,
       min_gain_db = of_int (MIN_GAIN_DB cfg),
       max_gain_db = of_int (MAX_GAIN_DB cfg) \<rparr>"
proof -
  have u: "REFERENCE_PRESSURE * 10 powr (clipping default_mic_params / 20)
             * 10 powr (sensitivity default_mic_params / 20) = def_full_scale"
    by (simp add: def_full_scale_def default_mic_params_def)
  have r: "snr default_mic_params / DEFAULT_SNR = 1"
    by (simp add: default_mic_params_def DEFAULT_SNR_def)
  have s: "DEFAULT_SENSITIVITY - sensitivity default_mic_params = 0"
    by (simp add: default_mic_params_def)
  from def_full_scale_pos have "def_full_scale \<noteq> 0" by simp
  then show ?thesis
    unfolding calibrate_and_propose_def Let_def u r s by simp
qed

text \<open>
  Claim C5. Fed the default microphone profile (snr 80, self-noise 14, clipping 120,
  sensitivity -28), \<open>calibrate_and_propose\<close> returns the thresholds and gain bounds it
  was configured with; for the shipped configuration these are 0.01, 0.001, 30 and 38,
  and the values the persistence step then derives from them by rounding are again
  0.01, 0.001, 30 and 38.
\<close>

theorem calibration_identity:
  "calibrate_and_propose cfg default_mic_params =
     \<lparr> noise_threshold_high = NOISE_THRESHOLD_HIGH cfg,
       noise_threshold_low = NOISE_THRESHOLD_LOW cfg,
       min_gain_db = of_int (MIN_GAIN_DB cfg),
       max_gain_db = of_int (MAX_GAIN_DB cfg) \<rparr>
   \<and> calibrate_and_propose default_config
        \<lparr>snr = 80, self_noise = 14, clipping = 120, sensitivity = - 28\<rparr> =
     \<lparr> noise_threshold_high = 0.01, noise_threshold_low = 0.001,
       min_gain_db = 30, max_gain_db = 38 \<rparr>
   \<and> persist_subs (calibrate_and_propose default_config
        \<lparr>snr = 80, self_noise = 14, clipping = 120, sensitivity = - 28\<rparr>) =
     \<lparr> subs_NOISE_THRESHOLD_HIGH = 0.01, subs_NOISE_THRESHOLD_LOW = 0.001,
       subs_MIN_GAIN_DB = 30, subs_MAX_GAIN_DB = 38 \<rparr>"
proof -
  have d: "\<lparr>snr = 80, self_noise = 14, clipping = 120, sensitivity = - 28\<rparr>
             = default_mic_params"
    by (simp add: default_mic_params_def DEFAULT_SNR_def DEFAULT_SELF_NOISE_def
        DEFAULT_CLIPPING_def DEFAULT_SENSITIVITY_def)
  have c: "calibrate_and_propose default_config default_mic_params =
     \<lparr> noise_threshold_high = 0.01, noise_threshold_low = 0.001,
       min_gain_db = 30, max_gain_db = 38 \<rparr>"
    by (simp add: calibrate_default_mic_params default_config_def)
  have p: "persist_subs \<lparr> noise_threshold_high = 0.01, noise_threshold_low = 0.001,
       min_gain_db = 30, max_gain_db = 38 \<rparr> =
     \<lparr> subs_NOISE_THRESHOLD_HIGH = 0.01, subs_NOISE_THRESHOLD_LOW = 0.001,
       subs_MIN_GAIN_DB = 30, subs_MAX_GAIN_DB = 38 \<rparr>"
    by (simp add: persist_subs_def format_7f_def py_round_def Let_def)
  show ?thesis unfolding d c p by (simp add: calibrate_default_mic_params)
qed







section \<open>Filter configuration errors\<close>

lemma bandpass_rejected:
  "butter lib n (lo, hi) fs = Inl e \<Longrightarrow> bandpass_filter lib audio lo hi fs n = Inl e"
  by (simp add: bandpass_filter_def)

lemma control_loop_skips:
  assumes "\<forall>x \<in> set fails. captured x = None \<or> captured x = Some []"
  shows "control_loop lib cfg c (fails @ rest) =
           (replicate (length fails) Sleep @ fst (control_loop lib cfg c rest),
            snd (control_loop lib cfg c rest))"
  using assms
proof (induction fails)
  case Nil
  then show ?case by simp
next
  case (Cons x fails)
  then have "cycle lib cfg c x = ([Sleep], Inr c)" by (simp add: cycle_no_audio)
  with Cons show ?case by simp
qed

lemma control_loop_raises:
  assumes "cycle lib cfg c inp = ([], Inl e)"
  shows "control_loop lib cfg c (inp # rest) = ([], Inl e)"
  using assms by simp

lemma dynamic_gain_control_unfold:
  "dynamic_gain_control lib cfg inps =
     (set_gain_db cfg (of_int ((MIN_GAIN_DB cfg + MAX_GAIN_DB cfg) div 2))
        # fst (control_loop lib cfg 0 inps),
      snd (control_loop lib cfg 0 inps))"
  by (simp add: dynamic_gain_control_def split: prod.splits)

text \<open>
  Claim C6, as stated, fails: nothing checks the cutoffs before the loop. With the low
  cutoff 8000 above the high cutoff 2000 the startup write is made and a cycle whose
  capture fails runs and sleeps as usual; the error is raised inside the loop, by the
  filtering call of the first cycle that captured samples.
\<close>

theorem invalid_cutoffs_not_checked_at_startup:
  "invalid_cutoffs (LOWCUT (default_config\<lparr>LOWCUT := 8000, HIGHCUT := 2000\<rparr>))
     (HIGHCUT (default_config\<lparr>LOWCUT := 8000, HIGHCUT := 2000\<rparr>))
     (SAMPLING_RATE (default_config\<lparr>LOWCUT := 8000, HIGHCUT := 2000\<rparr>))
   \<and> dynamic_gain_control checking_lib (default_config\<lparr>LOWCUT := 8000, HIGHCUT := 2000\<rparr>)
       [\<lparr>captured = None, gain_reading = Some 34\<rparr>]
     = ([AmixerSset 34, Sleep], Inr 0)
   \<and> dynamic_gain_control checking_lib (default_config\<lparr>LOWCUT := 8000, HIGHCUT := 2000\<rparr>)
       [\<lparr>captured = None, gain_reading = Some 34\<rparr>,
        \<lparr>captured = Some [1], gain_reading = Some 34\<rparr>]
     = ([AmixerSset 34, Sleep], Inl ValueError)"
  by (simp add: dynamic_gain_control_def cycle_def bandpass_filter_def checking_lib_def
      invalid_cutoffs_def set_gain_db_def py_int_def default_config_def)

text \<open>
  Claim C6, amended. The filter is designed in every filtering call and nothing validates
  the cutoffs at startup. When the design rejects the configured cutoffs, the startup
  write is still made, every cycle whose capture fails only sleeps and raises nothing,
  and the first cycle that captured samples raises the design error before it measures,
  updates the counter or writes, which ends the loop; if every capture fails the error is
  never raised.
\<close>

theorem filter_error_raised_by_first_measuring_cycle:
  assumes "butter lib (FILTER_ORDER cfg) (LOWCUT cfg, HIGHCUT cfg) (SAMPLING_RATE cfg) = Inl e"
  shows "hd (fst (dynamic_gain_control lib cfg inps))
           = set_gain_db cfg (of_int ((MIN_GAIN_DB cfg + MAX_GAIN_DB cfg) div 2))
       \<and> (captured inp = None \<or> captured inp = Some []
            \<longrightarrow> cycle lib cfg c inp = ([Sleep], Inr c))
       \<and> (captured inp = Some audio \<and> audio \<noteq> [] \<longrightarrow> cycle lib cfg c inp = ([], Inl e))
       \<and> ((\<forall>x \<in> set fails. captured x = None \<or> captured x = Some []) \<longrightarrow>
            dynamic_gain_control lib cfg fails =
              (set_gain_db cfg (of_int ((MIN_GAIN_DB cfg + MAX_GAIN_DB cfg) div 2))
                 # replicate (length fails) Sleep, Inr 0))
       \<and> ((\<forall>x \<in> set fails. captured x = None \<or> captured x = Some [])
           \<and> captured inp = Some audio \<and> audio \<noteq> [] \<longrightarrow>
            dynamic_gain_control lib cfg (fails @ inp # rest) =
              (set_gain_db cfg (of_int ((MIN_GAIN_DB cfg + MAX_GAIN_DB cfg) div 2))
                 # replicate (length fails) Sleep, Inl e))"
proof (intro conjI impI)
  show "hd (fst (dynamic_gain_control lib cfg inps))
           = set_gain_db cfg (of_int ((MIN_GAIN_DB cfg + MAX_GAIN_DB cfg) div 2))"
    by (simp add: dynamic_gain_control_trace)
next
  assume "captured inp = None \<or> captured inp = Some []"
  then show "cycle lib cfg c inp = ([Sleep], Inr c)" by (rule cycle_no_audio)
next
  assume "captured inp = Some audio \<and> audio \<noteq> []"
  then show "cycle lib cfg c inp = ([], Inl e)"
    using bandpass_rejected [OF assms] by (simp add: cycle_raises)
next
  assume f: "\<forall>x \<in> set fails. captured x = None \<or> captured x = Some []"
  from control_loop_skips [OF f, of lib cfg 0 "[]"]
  show "dynamic_gain_control lib cfg fails =
              (set_gain_db cfg (of_int ((MIN_GAIN_DB cfg + MAX_GAIN_DB cfg) div 2))
                 # replicate (length fails) Sleep, Inr 0)"
    by (simp add: dynamic_gain_control_unfold)
next
  assume a: "(\<forall>x \<in> set fails. captured x = None \<or> captured x = Some [])
           \<and> captured inp = Some audio \<and> audio \<noteq> []"
  then have "cycle lib cfg 0 inp = ([], Inl e)"
    using bandpass_rejected [OF assms] by (simp add: cycle_raises)
  then have r: "control_loop lib cfg 0 (inp # rest) = ([], Inl e)" by (rule control_loop_raises)
  from a have f: "\<forall>x \<in> set fails. captured x = None \<or> captured x = Some []" by simp
  from control_loop_skips [OF f, of lib cfg 0 "inp # rest"] r
  show "dynamic_gain_control lib cfg (fails @ inp # rest) =
              (set_gain_db cfg (of_int ((MIN_GAIN_DB cfg + MAX_GAIN_DB cfg) div 2))
                 # replicate (length fails) Sleep, Inl e)"
    by (simp add: dynamic_gain_control_unfold)
qed

theorem filter_error_raised_by_first_measuring_cycle_witness:
  "butter checking_lib (FILTER_ORDER (default_config\<lparr>LOWCUT := 8000, HIGHCUT := 2000\<rparr>))
     (LOWCUT (default_config\<lparr>LOWCUT := 8000, HIGHCUT := 2000\<rparr>),
      HIGHCUT (default_config\<lparr>LOWCUT := 8000, HIGHCUT := 2000\<rparr>))
     (SAMPLING_RATE (default_config\<lparr>LOWCUT := 8000, HIGHCUT := 2000\<rparr>)) = Inl ValueError
   \<and> (captured \<lparr>captured = None, gain_reading = None\<rparr> = None
        \<or> captured \<lparr>captured = None, gain_reading = None\<rparr> = Some [])
   \<and> (captured \<lparr>captured = Some [], gain_reading = None\<rparr> = None
        \<or> captured \<lparr>captured = Some [], gain_reading = None\<rparr> = Some [])
   \<and> captured \<lparr>captured = Some [0.5], gain_reading = Some 34\<rparr> = Some [0.5]
   \<and> [0.5 :: real] \<noteq> []
   \<and> cycle checking_lib (default_config\<lparr>LOWCUT := 8000, HIGHCUT := 2000\<rparr>) 0
        \<lparr>captured = Some [0.5], gain_reading = Some 34\<rparr> = ([], Inl ValueError)
   \<and> dynamic_gain_control checking_lib (default_config\<lparr>LOWCUT := 8000, HIGHCUT := 2000\<rparr>)
        ([\<lparr>captured = None, gain_reading = None\<rparr>, \<lparr>captured = Some [], gain_reading = None\<rparr>]
         @ \<lparr>captured = Some [0.5], gain_reading = Some 34\<rparr> # [])
      = ([AmixerSset 34, Sleep, Sleep], Inl ValueError)"
proof -
  let ?cfg = "default_config\<lparr>LOWCUT := 8000, HIGHCUT := 2000\<rparr>"
  let ?fails = "[\<lparr>captured = None, gain_reading = None\<rparr>, \<lparr>captured = Some [], gain_reading = None\<rparr>]"
  let ?inp = "\<lparr>captured = Some [0.5], gain_reading = Some 34\<rparr>"
  have h: "butter checking_lib (FILTER_ORDER ?cfg) (LOWCUT ?cfg, HIGHCUT ?cfg) (SAMPLING_RATE ?cfg)
             = Inl ValueError"
    by (simp add: checking_lib_def invalid_cutoffs_def default_config_def)
  have f: "\<forall>x \<in> set ?fails. captured x = None \<or> captured x = Some []" by simp
  have c: "captured ?inp = Some [0.5]" "[0.5 :: real] \<noteq> []" by simp_all
  have s: "set_gain_db ?cfg (of_int ((MIN_GAIN_DB ?cfg + MAX_GAIN_DB ?cfg) div 2)) = AmixerSset 34"
    by (simp add: set_gain_db_def py_int_def default_config_def)
  note t = filter_error_raised_by_first_measuring_cycle [OF h, of "[]" ?inp 0 "[0.5]" ?fails "[]"]
  from t c have "cycle checking_lib ?cfg 0 ?inp = ([], Inl ValueError)" by blast
  moreover from t f c
  have "dynamic_gain_control checking_lib ?cfg (?fails @ ?inp # []) =
          (set_gain_db ?cfg (of_int ((MIN_GAIN_DB ?cfg + MAX_GAIN_DB ?cfg) div 2))
             # replicate (length ?fails) Sleep, Inl ValueError)"
    by blast
  then have "dynamic_gain_control checking_lib ?cfg (?fails @ ?inp # []) =
          ([AmixerSset 34, Sleep, Sleep], Inl ValueError)"
    unfolding s by (simp add: numeral_2_eq_2)
  ultimately show ?thesis using h f c by simp
qed

section \<open>Calibration in double precision: rounding\<close>






















lemma and_then_simps [simp]:
  "and_then (Inl e) f = Inl e" "and_then (Inr v) f = f v"
  by (simp_all add: and_then_def)






















section \<open>Calibration in double precision: concrete inputs\<close>



































end
